theory Spec2Isabelle
  imports Main
begin

section \<open>The typed object cache (src/src/cache.ts)\<close>

text \<open>
  The cache keeps, for each of four object types, a table from ids to items; an item is the
  last value fetched or set together with an event emitter of its own. Every emitter of the
  library is a JavaScript object on the heap: the cache-wide one and the four per-type ones
  are created once by the constructor and are named here by what they are (\<open>Global\<close>,
  \<open>Kind k\<close>); the emitter of an item is created when the item is inserted and is named by
  its heap address (\<open>Entry a\<close>); a resource handle is an emitter too (\<open>Handle a\<close>).

  Object types and ids are strings, as they are at run time. A value of the cache is a
  response object of the remote API: the cache never looks inside it and compares two of
  them with \<open>===\<close>, which is identity; equality of the value type \<open>'v\<close> stands for it.
  Such a value is an object, hence truthy. The tables are plain maps: ids that collide with
  the properties every JavaScript object inherits (\<open>constructor\<close>, \<open>toString\<close>, ...) are
  outside the model.

  Effects are explicit. The state is threaded through every operation, an exception is the
  \<open>Inl\<close> of the result (the state reached before the throw is returned beside it), and
  what the outside world can observe, every \<open>emit\<close> on a channel and every call of the
  remote API, is appended to a trace. What a listener does when it is notified is the
  caller's code and is not part of the cache: listeners are taken to return normally and
  not to call back into the cache while an event is being emitted. Request options only
  travel to the remote call and are left out.
\<close>

type_synonym ObjectType = string
type_synonym Id = string
type_synonym addr = nat

definition object_types :: "ObjectType list" where
  "object_types = [''assistant'', ''thread'', ''message'', ''run'']"

datatype event =
    cacheInserted | updated | cacheRemoved | fetched | created | deleted
  | statusChanged | actionRequired | finished

datatype error =
    InvalidObjectType ObjectType string  \<comment> \<open>\<open>Invalid object type ${object} to ${operation}\<close>\<close>
  | InvalidIdType string ObjectType  \<comment> \<open>\<open>Invalid id type ${typeof id} to fetch an ${object}\<close>\<close>
  | EmptyCache Id  \<comment> \<open>\<open>Cannot get emitter when cache is empty for id ${id}\<close>\<close>
  | NotLoaded  \<comment> \<open>\<open>Attempted to access wrapped value of a stateful object that has not been loaded\<close>\<close>
  | PollTimedOut Id  \<comment> \<open>\<open>Polling for Run id ${id} timed out after 120 seconds\<close>\<close>
  | RemoteError string  \<comment> \<open>whatever the remote call rejects with\<close>

datatype channel = Global | Kind ObjectType | Entry addr | Handle addr

datatype request =
    RetrieveAssistant Id
  | RetrieveThread Id
  | RetrieveMessage Id Id  \<comment> \<open>thread id, message id\<close>
  | RetrieveRun Id Id  \<comment> \<open>thread id, run id\<close>

datatype 'v arg = Str string | Val 'v | Undefined | Null | Err error | Action "string option"

datatype 'v effect =
    Emit channel event "'v arg list"
  | Called request
  | ConsoleError error

text \<open>
  The only listeners the library itself registers are the closures of
  \<open>StatefulObject._subscribe\<close>: \<open>Republish f h key\<close> is the closure at address \<open>f\<close> that
  re-emits \<open>key\<close> on the handle \<open>h\<close>.
\<close>

datatype listener = Republish addr addr event

record 'v ObjectCacheItem =
  item_value :: 'v
  item_emitter :: addr

record 'v state =
  data :: "ObjectType \<Rightarrow> Id \<rightharpoonup> 'v ObjectCacheItem"
  listeners :: "channel \<Rightarrow> (event \<times> listener) list"
  fresh :: addr
  trace :: "'v effect list"

text \<open>\<open>new Cache(ctx)\<close>: four empty tables, no listener anywhere, nothing observed yet.\<close>

definition new_Cache :: "'v state" where
  "new_Cache = \<lparr>data = (\<lambda>k. Map.empty), listeners = (\<lambda>c. []), fresh = 0, trace = []\<rparr>"

text \<open>\<open>this._cache[object]\<close>: the table of a recognised type, \<open>undefined\<close> for any other.\<close>

definition cache_of :: "'v state \<Rightarrow> ObjectType \<Rightarrow> (Id \<rightharpoonup> 'v ObjectCacheItem) option" where
  "cache_of s object = (if object \<in> set object_types then Some (data s object) else None)"

definition put_item :: "ObjectType \<Rightarrow> Id \<Rightarrow> 'v ObjectCacheItem \<Rightarrow> 'v state \<Rightarrow> 'v state" where
  "put_item object i d s = s\<lparr>data := (data s)(object := (data s object)(i \<mapsto> d))\<rparr>"


text \<open>\<open>new TypedEmitter()\<close>: a fresh address, with no listener.\<close>

definition new_emitter :: "'v state \<Rightarrow> addr \<times> 'v state" where
  "new_emitter s = (fresh s, s\<lparr>fresh := Suc (fresh s)\<rparr>)"

definition emit :: "channel \<Rightarrow> event \<Rightarrow> 'v arg list \<Rightarrow> 'v state \<Rightarrow> 'v state" where
  "emit c ev args s = s\<lparr>trace := trace s @ [Emit c ev args]\<rparr>"


definition optarg :: "'v option \<Rightarrow> 'v arg" where
  "optarg v = (case v of None \<Rightarrow> Undefined | Some x \<Rightarrow> Val x)"

text \<open>
  \<open>Cache.emitter(object?, id?)\<close>. Both tests are on truthiness (\<open>!object\<close>, \<open>!id\<close>): an
  argument left out and the empty string take the same branch.
\<close>

definition Cache_emitter :: "'v state \<Rightarrow> ObjectType option \<Rightarrow> Id option \<Rightarrow> error + channel" where
  "Cache_emitter s object ident =
     (case object of
        None \<Rightarrow> Inr Global
      | Some k \<Rightarrow>
          if k = [] then Inr Global
          else (case cache_of s k of
                  None \<Rightarrow> Inl (InvalidObjectType k ''get emitter'')
                | Some cache \<Rightarrow>
                    (case ident of
                       None \<Rightarrow> Inr (Kind k)
                     | Some i \<Rightarrow>
                         if i = [] then Inr (Kind k)
                         else (case cache i of
                                 None \<Rightarrow> Inl (EmptyCache i)
                               | Some item \<Rightarrow> Inr (Entry (item_emitter item))))))"

text \<open>\<open>Cache._emit(event, object, id, value?)\<close>: three emits, each on the channel \<open>emitter\<close> returns.\<close>

definition Cache_emit ::
  "event \<Rightarrow> ObjectType \<Rightarrow> Id \<Rightarrow> 'v option \<Rightarrow> 'v state \<Rightarrow> (error + unit) \<times> 'v state" where
  "Cache_emit ev object i v s =
     (case Cache_emitter s None None of
        Inl e \<Rightarrow> (Inl e, s)
      | Inr g \<Rightarrow>
          (let s1 = emit g ev [Str object, Str i, optarg v] s in
           case Cache_emitter s1 (Some object) None of
             Inl e \<Rightarrow> (Inl e, s1)
           | Inr k \<Rightarrow>
               (let s2 = emit k ev [Str i, optarg v] s1 in
                case Cache_emitter s2 (Some object) (Some i) of
                  Inl e \<Rightarrow> (Inl e, s2)
                | Inr c \<Rightarrow> (Inr (), emit c ev [Str i, optarg v] s2))))"

text \<open>\<open>Cache.get(object, id)\<close>: \<open>data[id]?.value\<close>, which is \<open>undefined\<close> (\<open>None\<close>) without an item.\<close>

definition Cache_get :: "ObjectType \<Rightarrow> Id \<Rightarrow> 'v state \<Rightarrow> error + 'v option" where
  "Cache_get object i s =
     (case cache_of s object of
        None \<Rightarrow> Inl (InvalidObjectType object ''get'')
      | Some cache \<Rightarrow> Inr (map_option item_value (cache i)))"

text \<open>\<open>Cache.set(object, id, value)\<close>.\<close>

definition Cache_set :: "ObjectType \<Rightarrow> Id \<Rightarrow> 'v \<Rightarrow> 'v state \<Rightarrow> (error + unit) \<times> 'v state" where
  "Cache_set object i v s =
     (case cache_of s object of
        None \<Rightarrow> (Inl (InvalidObjectType object ''set''), s)
      | Some cache \<Rightarrow>
          (case cache i of
             Some d \<Rightarrow>
               if item_value d = v then (Inr (), s)
               else Cache_emit updated object i (Some v)
                      (put_item object i (d\<lparr>item_value := v\<rparr>) s)
           | None \<Rightarrow>
               (let (a, s1) = new_emitter s in
                Cache_emit cacheInserted object i (Some v)
                  (put_item object i \<lparr>item_value = v, item_emitter = a\<rparr> s1))))"


text \<open>
  A call of the remote API: the world answers with \<open>remote\<close>, a rejection being \<open>Inl\<close>, and
  the call is observed.
\<close>

definition retrieve ::
  "(request \<Rightarrow> error + 'v) \<Rightarrow> request \<Rightarrow> 'v state \<Rightarrow> (error + 'v) \<times> 'v state" where
  "retrieve remote req s = (remote req, s\<lparr>trace := trace s @ [Called req]\<rparr>)"

text \<open>
  The id \<open>Cache.fetch\<close> takes is a string or an object \<open>{threadId, id}\<close>; \<open>typeof\<close> tells
  them apart.
\<close>

datatype fetch_id = Bare Id | Compound Id Id

definition stringId :: "fetch_id \<Rightarrow> Id" where
  "stringId ident = (case ident of Compound t i \<Rightarrow> i | Bare i \<Rightarrow> i)"

definition Cache_fetch ::
  "(request \<Rightarrow> error + 'v) \<Rightarrow> ObjectType \<Rightarrow> fetch_id \<Rightarrow> 'v state \<Rightarrow> (error + 'v) \<times> 'v state" where
  "Cache_fetch remote object ident s =
     (case (if object = ''assistant'' then
              (case ident of
                 Compound t i \<Rightarrow> (Inl (InvalidIdType ''object'' object), s)
               | Bare i \<Rightarrow> retrieve remote (RetrieveAssistant i) s)
            else if object = ''thread'' then
              (case ident of
                 Compound t i \<Rightarrow> (Inl (InvalidIdType ''object'' object), s)
               | Bare i \<Rightarrow> retrieve remote (RetrieveThread i) s)
            else if object = ''message'' then
              (case ident of
                 Bare i \<Rightarrow> (Inl (InvalidIdType ''string'' object), s)
               | Compound t i \<Rightarrow> retrieve remote (RetrieveMessage t i) s)
            else if object = ''run'' then
              (case ident of
                 Bare i \<Rightarrow> (Inl (InvalidIdType ''string'' object), s)
               | Compound t i \<Rightarrow> retrieve remote (RetrieveRun t i) s)
            else (Inl (InvalidObjectType object ''fetch''), s)) of
        (Inl e, s1) \<Rightarrow> (Inl e, s1)
      | (Inr result, s1) \<Rightarrow>
          (case Cache_set object (stringId ident) result s1 of
             (Inl e, s2) \<Rightarrow> (Inl e, s2)
           | (Inr u, s2) \<Rightarrow>
               (case Cache_emit fetched object (stringId ident) (Some result) s2 of
                  (Inl e, s3) \<Rightarrow> (Inl e, s3)
                | (Inr u', s3) \<Rightarrow> (Inr result, s3))))"

text \<open>\<open>Cache.getOrFetch(object, id, options)\<close>: the id is a string, handed on to \<open>fetch\<close> as it is.\<close>

definition Cache_getOrFetch ::
  "(request \<Rightarrow> error + 'v) \<Rightarrow> ObjectType \<Rightarrow> Id \<Rightarrow> 'v state \<Rightarrow> (error + 'v) \<times> 'v state" where
  "Cache_getOrFetch remote object i s =
     (case cache_of s object of
        None \<Rightarrow> (Inl (InvalidObjectType object ''getOrFetch''), s)
      | Some cache \<Rightarrow>
          (case cache i of
             Some existing \<Rightarrow> (Inr (item_value existing), s)
           | None \<Rightarrow> Cache_fetch remote object (Bare i) s))"

section \<open>Resource handles (utils.ts: StatefulObject)\<close>

text \<open>
  A handle binds an object type and an id to the cache; it holds no data of the resource.
  The handle is an emitter itself: \<open>self\<close> is its address, and what it emits goes to the
  channel \<open>Handle (self h)\<close>. The field \<open>ident\<close> is \<open>_id\<close>. The field \<open>unsubscribe\<close> is the
  closure \<open>_unsubscribe\<close>: \<open>None\<close> is the initial \<open>() => {}\<close>, and \<open>Some (c, ls)\<close> is the
  closure that removes the listeners \<open>ls\<close> from the emitter \<open>c\<close> it captured.
\<close>

record StatefulObject =
  self :: addr
  object :: ObjectType
  ident :: Id
  unsubscribe :: "(channel \<times> (event \<times> listener) list) option"

text \<open>\<open>get wrappedValue()\<close>.\<close>

definition StatefulObject_wrappedValue :: "'z StatefulObject_scheme \<Rightarrow> 'v state \<Rightarrow> error + 'v" where
  "StatefulObject_wrappedValue h s =
     (case Cache_get (object h) (ident h) s of
        Inl e \<Rightarrow> Inl e
      | Inr None \<Rightarrow> Inl NotLoaded
      | Inr (Some v) \<Rightarrow> Inr v)"

definition addListener :: "channel \<Rightarrow> event \<Rightarrow> listener \<Rightarrow> 'v state \<Rightarrow> 'v state" where
  "addListener c ev f s = s\<lparr>listeners := (listeners s)(c := listeners s c @ [(ev, f)])\<rparr>"

text \<open>\<open>removeListener\<close> takes out the most recently added registration of the listener.\<close>

definition removeListener :: "channel \<Rightarrow> event \<Rightarrow> listener \<Rightarrow> 'v state \<Rightarrow> 'v state" where
  "removeListener c ev f s =
     s\<lparr>listeners := (listeners s)(c := rev (remove1 (ev, f) (rev (listeners s c))))\<rparr>"

text \<open>\<open>createListener(key)\<close>: a new closure, which re-emits \<open>key\<close> on this handle.\<close>

definition createListener :: "'z StatefulObject_scheme \<Rightarrow> event \<Rightarrow> 'v state \<Rightarrow> listener \<times> 'v state" where
  "createListener h key s = (Republish (fresh s) (self h) key, s\<lparr>fresh := Suc (fresh s)\<rparr>)"

fun add_listeners ::
  "'z StatefulObject_scheme \<Rightarrow> channel \<Rightarrow> event list \<Rightarrow> 'v state \<Rightarrow> (event \<times> listener) list \<times> 'v state" where
  "add_listeners h c [] s = ([], s)"
| "add_listeners h c (key # keys) s =
     (let (f, s1) = createListener h key s;
          s2 = addListener c key f s1;
          (ls, s3) = add_listeners h c keys s2
      in ((key, f) # ls, s3))"

definition subscribed_keys :: "event list" where
  "subscribed_keys = [cacheInserted, cacheRemoved, updated, fetched, created, deleted]"

text \<open>Calling \<open>this._unsubscribe()\<close>.\<close>

definition call_unsubscribe ::
  "'z StatefulObject_scheme \<Rightarrow> 'v state \<Rightarrow> 'z StatefulObject_scheme \<times> 'v state" where
  "call_unsubscribe h s =
     (case unsubscribe h of
        None \<Rightarrow> (h, s)
      | Some (c, ls) \<Rightarrow>
          (h\<lparr>unsubscribe := None\<rparr>, foldl (\<lambda>s' (key, f). removeListener c key f s') s ls))"

text \<open>\<open>StatefulObject._subscribe()\<close>.\<close>

definition StatefulObject_subscribe ::
  "'z StatefulObject_scheme \<Rightarrow> 'v state \<Rightarrow> (error + unit) \<times> 'z StatefulObject_scheme \<times> 'v state" where
  "StatefulObject_subscribe h s =
     (case Cache_get (object h) (ident h) s of
        Inl e \<Rightarrow> (Inl e, h, s)
      | Inr None \<Rightarrow> (Inr (), h, s)
      | Inr (Some v) \<Rightarrow>
          (let (h1, s1) = call_unsubscribe h s in
           case Cache_emitter s1 (Some (object h1)) (Some (ident h1)) of
             Inl e \<Rightarrow> (Inl e, h1, s1)
           | Inr c \<Rightarrow>
               (let (ls, s2) = add_listeners h1 c subscribed_keys s1
                in (Inr (), h1\<lparr>unsubscribe := Some (c, ls)\<rparr>, s2))))"

text \<open>The constructor: \<open>super()\<close> makes the handle's own emitter, then \<open>_subscribe()\<close>.\<close>

definition new_StatefulObject ::
  "ObjectType \<Rightarrow> Id \<Rightarrow> 'v state \<Rightarrow> (error + unit) \<times> StatefulObject \<times> 'v state" where
  "new_StatefulObject k i s =
     (let (a, s1) = new_emitter s
      in StatefulObject_subscribe \<lparr>self = a, object = k, ident = i, unsubscribe = None\<rparr> s1)"

text \<open>\<open>StatefulObject.load(options)\<close>.\<close>

definition StatefulObject_load ::
  "(request \<Rightarrow> error + 'v) \<Rightarrow> 'z StatefulObject_scheme \<Rightarrow> 'v state \<Rightarrow>
     (error + unit) \<times> 'z StatefulObject_scheme \<times> 'v state" where
  "StatefulObject_load remote h s =
     (case Cache_getOrFetch remote (object h) (ident h) s of
        (Inl e, s1) \<Rightarrow> (Inl e, h, s1)
      | (Inr v, s1) \<Rightarrow> StatefulObject_subscribe h s1)"

text \<open>\<open>StatefulObject.fetch(options)\<close>.\<close>

definition StatefulObject_fetch ::
  "(request \<Rightarrow> error + 'v) \<Rightarrow> 'z StatefulObject_scheme \<Rightarrow> 'v state \<Rightarrow> (error + unit) \<times> 'v state" where
  "StatefulObject_fetch remote h s =
     (case Cache_fetch remote (object h) (Bare (ident h)) s of
        (Inl e, s1) \<Rightarrow> (Inl e, s1)
      | (Inr v, s1) \<Rightarrow> (Inr (), s1))"

section \<open>The run poll loop (src/src/run.ts)\<close>

text \<open>
  A response object of the remote API, as far as the poll loop reads it: \<open>status\<close> and
  \<open>required_action\<close> (\<open>None\<close> is \<open>null\<close>). The field \<open>ref\<close> tells which JavaScript object it
  is, so that two responses with the same content are two values.
\<close>

record response =
  ref :: nat
  status :: string
  required_action :: "string option"

text \<open>
  A Run is a handle of type \<open>run\<close> with its owning Thread handle, the interval of its poll
  session (\<open>_pollInterval\<close>, \<open>None\<close> is \<open>null\<close>) and the time the session started
  (\<open>_pollStartTime\<close>). Times are milliseconds. Of the Thread handle the poll loop reads the
  object type and the id, which never change.
\<close>

record Run = StatefulObject +
  thread :: StatefulObject
  pollInterval :: "addr option"
  pollStartTime :: int

definition POLL_INTERVAL_MS :: int where
  "POLL_INTERVAL_MS = 750"

definition POLL_TIMEOUT_MS :: int where
  "POLL_TIMEOUT_MS = 1000 * 60 * 2"

definition exitStatuses :: "string list" where
  "exitStatuses = [''cancelled'', ''expired'', ''completed'', ''failed'']"

text \<open>\<open>Run.endPolling()\<close>: \<open>clearInterval\<close>, then both fields are reset.\<close>

definition Run_endPolling :: "Run \<Rightarrow> Run" where
  "Run_endPolling r = r\<lparr>pollInterval := None, pollStartTime := 0\<rparr>"

text \<open>\<open>Run.beginPolling(options)\<close> at the time \<open>now\<close>; \<open>setInterval\<close> answers with a new timer.\<close>

definition Run_beginPolling :: "int \<Rightarrow> Run \<Rightarrow> 'v state \<Rightarrow> Run \<times> 'v state" where
  "Run_beginPolling now r s =
     (let r0 = Run_endPolling r
      in (r0\<lparr>pollInterval := Some (fresh s), pollStartTime := now\<rparr>, s\<lparr>fresh := Suc (fresh s)\<rparr>))"

text \<open>
  The callback \<open>beginPolling\<close> hands to \<open>setInterval\<close>, run at the time \<open>now\<close> against the
  answers \<open>remote\<close> of the API. The callback is an \<open>async\<close> function: \<open>Inl e\<close> is the
  rejection of the promise it returns, which nothing handles. One run of the callback is
  taken as one step: its awaits resolve before the timer fires again.
\<close>

definition Run_tick ::
  "(request \<Rightarrow> error + response) \<Rightarrow> int \<Rightarrow> Run \<Rightarrow> response state \<Rightarrow>
     (error + unit) \<times> Run \<times> response state" where
  "Run_tick remote now r s =
     (let elapsed = now - pollStartTime r in
      if elapsed > POLL_TIMEOUT_MS then
        (Inr (), Run_endPolling r,
         emit (Handle (self r)) finished [Err (PollTimedOut (ident r)), Null] s)
      else
        (case StatefulObject_wrappedValue r s of
           Inl e \<Rightarrow> (Inl e, r, s)
         | Inr oldRun \<Rightarrow>
             (case Cache_fetch remote ''run'' (Compound (ident (thread r)) (ident r)) s of
                (Inl err, s1) \<Rightarrow>
                  (let s2 = s1\<lparr>trace := trace s1 @ [ConsoleError err]\<rparr>;
                       s3 = emit (Handle (self r)) finished [Err err, Null] s2
                   in (Inr (), Run_endPolling r, s3))
              | (Inr run, s1) \<Rightarrow>
                  (let s2 = (if status run \<noteq> status oldRun
                             then emit (Handle (self r)) statusChanged [Str (status run)] s1
                             else s1);
                       s3 = (if status run = ''requires_action''
                             then emit (Handle (self r)) actionRequired [Action (required_action run)] s2
                             else s2)
                   in if status run \<in> set exitStatuses then
                        (let r1 = Run_endPolling r in
                         case StatefulObject_fetch remote (thread r1) s3 of
                           (Inl e, s4) \<Rightarrow> (Inl e, r1, s4)
                         | (Inr u, s4) \<Rightarrow>
                             (Inr (), r1,
                              emit (Handle (self r1)) finished [Null, Str (status run)] s4))
                      else (Inr (), r, s3)))))"



text \<open>\<open>Run.load(options)\<close>: \<open>super.load\<close>, then \<open>beginPolling\<close>.\<close>

definition Run_load ::
  "(request \<Rightarrow> error + 'v) \<Rightarrow> int \<Rightarrow> Run \<Rightarrow> 'v state \<Rightarrow> (error + unit) \<times> Run \<times> 'v state" where
  "Run_load remote now r s =
     (case StatefulObject_load remote r s of
        (Inl e, r1, s1) \<Rightarrow> (Inl e, r1, s1)
      | (Inr u, r1, s1) \<Rightarrow> (let (r2, s2) = Run_beginPolling now r1 s1 in (Inr (), r2, s2)))"

section \<open>Reading the trace\<close>

text \<open>
  One call of \<open>_emit\<close> puts an event on three channels: the cache-wide one, the one of the
  object type, and the one \<open>emitter(object, id)\<close> answers with, here \<open>c\<close>.
\<close>

definition fan_out :: "event \<Rightarrow> ObjectType \<Rightarrow> Id \<Rightarrow> 'v option \<Rightarrow> channel \<Rightarrow> 'v effect list" where
  "fan_out ev k i v c =
     [Emit Global ev [Str k, Str i, optarg v],
      Emit (Kind k) ev [Str i, optarg v],
      Emit c ev [Str i, optarg v]]"

text \<open>Appending to the trace.\<close>

definition observe :: "'v effect list \<Rightarrow> 'v state \<Rightarrow> 'v state" where
  "observe es s = s\<lparr>trace := trace s @ es\<rparr>"

text \<open>
  The channel \<open>emitter(k, i)\<close> answers with when \<open>(k, i)\<close> has an item whose emitter is at
  \<open>a\<close>: the item's own, unless the id is empty.
\<close>

definition entry_channel :: "ObjectType \<Rightarrow> Id \<Rightarrow> addr \<Rightarrow> channel" where
  "entry_channel k i a = (if i = [] then Kind k else Entry a)"

text \<open>The events emitted on one channel, in order.\<close>

fun emitted_on :: "channel \<Rightarrow> 'v effect list \<Rightarrow> event list" where
  "emitted_on c [] = []"
| "emitted_on c (Emit c' ev args # es) = (if c' = c then ev # emitted_on c es else emitted_on c es)"
| "emitted_on c (e # es) = emitted_on c es"

text \<open>
  The emits on the channels of the cache, and the rest of a trace: the calls of the remote
  API, the console, and what handles emit.
\<close>

fun cache_event :: "'v effect \<Rightarrow> bool" where
  "cache_event (Emit (Handle a) ev args) = False"
| "cache_event (Emit c ev args) = True"
| "cache_event e = False"

definition outside_cache :: "'v effect list \<Rightarrow> 'v effect list" where
  "outside_cache es = filter (\<lambda>e. \<not> cache_event e) es"

text \<open>What has been observed between two states.\<close>

definition since :: "'v state \<Rightarrow> 'v state \<Rightarrow> 'v effect list" where
  "since s s' = drop (length (trace s)) (trace s')"

text \<open>The request \<open>fetch\<close> sends for an object type and an id of the shape the type needs.\<close>

definition fetch_request :: "ObjectType \<Rightarrow> fetch_id \<Rightarrow> request option" where
  "fetch_request k x =
     (case x of
        Bare i \<Rightarrow>
          if k = ''assistant'' then Some (RetrieveAssistant i)
          else if k = ''thread'' then Some (RetrieveThread i)
          else None
      | Compound t i \<Rightarrow>
          if k = ''message'' then Some (RetrieveMessage t i)
          else if k = ''run'' then Some (RetrieveRun t i)
          else None)"

section \<open>Reading the poll loop\<close>

text \<open>
  What the callback emits on the handle at \<open>a\<close> once the fetch has answered with \<open>run\<close>
  and \<open>oldRun\<close> was the value cached before: \<open>statusChanged\<close> if the status differs, then
  \<open>actionRequired\<close> if the status is \<open>requires_action\<close>.
\<close>

definition status_events :: "addr \<Rightarrow> response \<Rightarrow> response \<Rightarrow> response effect list" where
  "status_events a oldRun run =
     (if status run \<noteq> status oldRun then [Emit (Handle a) statusChanged [Str (status run)]] else [])
     @ (if status run = ''requires_action''
        then [Emit (Handle a) actionRequired [Action (required_action run)]] else [])"

text \<open>
  The six closures \<open>_subscribe\<close> creates for the handle \<open>h\<close> when the next free address is
  \<open>n\<close>, each with the event it is registered for, in the order of the \<open>addListener\<close> calls.
\<close>

definition republishers :: "'z StatefulObject_scheme \<Rightarrow> addr \<Rightarrow> (event \<times> listener) list" where
  "republishers h n =
     map (\<lambda>(j, key). (key, Republish (n + j) (self h) key)) (enumerate 0 subscribed_keys)"

section \<open>A thread, a run and a message, as examples\<close>

text \<open>
  The run \<open>run_1\<close> of the thread \<open>thread_1\<close>, with a poll session started at time 1000; the
  remote API answering a run request with a new response object of a given status, and a
  thread request with the thread.
\<close>

definition example_thread :: StatefulObject where
  "example_thread = \<lparr>self = 1, object = ''thread'', ident = ''thread_1'', unsubscribe = None\<rparr>"

definition example_run :: Run where
  "example_run = \<lparr>self = 2, object = ''run'', ident = ''run_1'', unsubscribe = None,
     thread = example_thread, pollInterval = Some 3, pollStartTime = 1000\<rparr>"

definition example_message :: StatefulObject where
  "example_message = \<lparr>self = 4, object = ''message'', ident = ''msg_1'', unsubscribe = None\<rparr>"

definition example_response :: "nat \<Rightarrow> string \<Rightarrow> response" where
  "example_response n st = \<lparr>ref = n, status = st, required_action = None\<rparr>"


definition example_api :: "nat \<Rightarrow> string \<Rightarrow> request \<Rightarrow> error + response" where
  "example_api n st req =
     (case req of
        RetrieveRun t i \<Rightarrow> Inr (example_response n st)
      | RetrieveThread i \<Rightarrow> Inr (example_response (100 + n) '''')
      | _ \<Rightarrow> Inl (RemoteError ''not found''))"


section \<open>Properties of the cache\<close>

lemma recognised_nonempty: "k \<in> set object_types \<Longrightarrow> k \<noteq> []"
  by (auto simp: object_types_def)

lemma cache_of_recognised: "k \<in> set object_types \<Longrightarrow> cache_of s k = Some (data s k)"
  by (simp add: cache_of_def)

lemma Cache_emit_present:
  assumes "k \<in> set object_types" and "data s k i = Some d"
  shows "Cache_emit ev k i v s =
    (Inr (), observe (fan_out ev k i v (entry_channel k i (item_emitter d))) s)"
  using assms
  by (simp add: Cache_emit_def Cache_emitter_def cache_of_def emit_def fan_out_def observe_def
      recognised_nonempty entry_channel_def)

lemma Cache_set_insert:
  assumes "k \<in> set object_types" and "data s k i = None"
  shows "Cache_set k i v s =
    (Inr (), observe (fan_out cacheInserted k i (Some v) (entry_channel k i (fresh s)))
       (put_item k i \<lparr>item_value = v, item_emitter = fresh s\<rparr> (s\<lparr>fresh := Suc (fresh s)\<rparr>)))"
  using assms
  by (simp add: Cache_set_def cache_of_recognised new_emitter_def Cache_emit_present put_item_def)

lemma Cache_set_update:
  assumes "k \<in> set object_types" and "data s k i = Some d" and "item_value d \<noteq> v"
  shows "Cache_set k i v s =
    (Inr (), observe (fan_out updated k i (Some v) (entry_channel k i (item_emitter d)))
       (put_item k i (d\<lparr>item_value := v\<rparr>) s))"
  using assms
  by (simp add: Cache_set_def cache_of_recognised Cache_emit_present put_item_def)

lemma Cache_set_same:
  assumes "k \<in> set object_types" and "data s k i = Some d" and "item_value d = v"
  shows "Cache_set k i v s = (Inr (), s)"
  using assms by (simp add: Cache_set_def cache_of_recognised)

lemma outside_cache_fan_out [simp]: "outside_cache (fan_out ev k i v (entry_channel k i a)) = []"
  by (simp add: outside_cache_def fan_out_def entry_channel_def)

lemma outside_cache_append [simp]: "outside_cache (xs @ ys) = outside_cache xs @ outside_cache ys"
  by (simp add: outside_cache_def)

lemma outside_cache_Nil [simp]: "outside_cache [] = []"
  by (simp add: outside_cache_def)

lemma outside_cache_Cons [simp]:
  "outside_cache (e # es) = (if cache_event e then outside_cache es else e # outside_cache es)"
  by (simp add: outside_cache_def)

text \<open>What \<open>set\<close> leaves behind, whatever branch it took.\<close>

lemma Cache_set_props:
  assumes "k \<in> set object_types" and "Cache_set k i v s = (r, s')"
  shows "r = Inr () \<and> (\<exists>d. data s' k i = Some d \<and> item_value d = v) \<and>
      dom (data s' k) = insert i (dom (data s k)) \<and> listeners s' = listeners s \<and>
      (\<exists>es. trace s' = trace s @ es \<and> outside_cache es = [])"
proof (cases "data s k i")
  case None
  with assms show ?thesis
    by (auto simp: Cache_set_insert put_item_def observe_def)
next
  case (Some d)
  show ?thesis
  proof (cases "item_value d = v")
    case True
    with assms Some show ?thesis
      by (auto simp: Cache_set_same outside_cache_def)
  next
    case False
    with assms Some show ?thesis
      by (auto simp: Cache_set_update put_item_def observe_def)
  qed
qed

lemma fetch_request_recognised: "fetch_request k x = Some req \<Longrightarrow> k \<in> set object_types"
  by (auto simp: fetch_request_def object_types_def split: fetch_id.splits if_splits)

lemma Cache_fetch_called:
  assumes "fetch_request k x = Some req"
  shows "Cache_fetch remote k x s =
    (case remote req of
       Inl e \<Rightarrow> (Inl e, observe [Called req] s)
     | Inr v \<Rightarrow>
         (case Cache_set k (stringId x) v (observe [Called req] s) of
            (Inl e, s2) \<Rightarrow> (Inl e, s2)
          | (Inr u, s2) \<Rightarrow>
              (case Cache_emit fetched k (stringId x) (Some v) s2 of
                 (Inl e, s3) \<Rightarrow> (Inl e, s3)
               | (Inr u', s3) \<Rightarrow> (Inr v, s3))))"
  using assms
  by (auto simp: fetch_request_def Cache_fetch_def retrieve_def observe_def
      split: fetch_id.splits if_splits sum.splits)

lemma Cache_fetch_rejected:
  assumes "fetch_request k x = Some req" and "remote req = Inl e"
  shows "Cache_fetch remote k x s = (Inl e, observe [Called req] s)"
  using assms by (simp add: Cache_fetch_called)

lemma Cache_fetch_props:
  assumes "fetch_request k x = Some req" and "remote req = Inr v"
    and "Cache_fetch remote k x s = (r, s')"
  shows "r = Inr v \<and> (\<exists>d. data s' k (stringId x) = Some d \<and> item_value d = v) \<and>
      dom (data s' k) = insert (stringId x) (dom (data s k)) \<and> listeners s' = listeners s \<and>
      (\<exists>es. trace s' = trace s @ es \<and> outside_cache es = [Called req])"
proof -
  have k: "k \<in> set object_types"
    using assms(1) by (rule fetch_request_recognised)
  obtain r2 s2 where set: "Cache_set k (stringId x) v (observe [Called req] s) = (r2, s2)"
    by (cases "Cache_set k (stringId x) v (observe [Called req] s)")
  note p = Cache_set_props [OF k set]
  from p obtain d where d: "data s2 k (stringId x) = Some d" "item_value d = v"
    by blast
  from p obtain es where es: "trace s2 = trace s @ [Called req] @ es" "outside_cache es = []"
    by (auto simp: observe_def)
  have "Cache_fetch remote k x s =
      (Inr v, observe (fan_out fetched k (stringId x) (Some v)
                 (entry_channel k (stringId x) (item_emitter d))) s2)"
    using p set assms(2) d by (simp add: Cache_fetch_called [OF assms(1)] Cache_emit_present [OF k])
  with assms(3) have r: "r = Inr v"
    and s': "s' = observe (fan_out fetched k (stringId x) (Some v)
                 (entry_channel k (stringId x) (item_emitter d))) s2"
    by simp_all
  have "trace s' = trace s @ ([Called req] @ es @ fan_out fetched k (stringId x) (Some v)
                 (entry_channel k (stringId x) (item_emitter d)))"
    by (simp add: s' observe_def es)
  moreover have "outside_cache ([Called req] @ es @ fan_out fetched k (stringId x) (Some v)
                 (entry_channel k (stringId x) (item_emitter d))) = [Called req]"
    using es(2) by simp
  ultimately have tr: "\<exists>es. trace s' = trace s @ es \<and> outside_cache es = [Called req]"
    by blast
  have "data s' = data s2" "listeners s' = listeners s2"
    by (simp_all add: s' observe_def)
  moreover have "dom (data s2 k) = insert (stringId x) (dom (data s k))"
    "listeners s2 = listeners s"
    using p by (simp_all add: observe_def)
  ultimately show ?thesis
    using r d tr by simp
qed

lemma since_observe [simp]: "since s (observe es s) = es"
  by (simp add: since_def observe_def)









text \<open>
  C8 (getOrFetch never clobbers). For every recognised type \<open>k\<close> and id \<open>i\<close> with an item in
  the cache, \<open>getOrFetch(k, i)\<close> returns the item's value and leaves the state as it is,
  whatever the remote API would answer: no call of the API is observed and the value is
  not overwritten.
\<close>

theorem getOrFetch_never_clobbers:
  assumes "k \<in> set object_types" and "data s k i = Some d"
  shows "Cache_getOrFetch remote k i s = (Inr (item_value d), s)"
  using assms by (simp add: Cache_getOrFetch_def cache_of_recognised)

text \<open>C8 at an assistant that is cached with the value 3, the remote API holding 9.\<close>

theorem getOrFetch_never_clobbers_witness:
  "Cache_getOrFetch (\<lambda>req. Inr 9) ''assistant'' ''asst_1''
     (snd (Cache_set ''assistant'' ''asst_1'' (3::nat) new_Cache))
   = (Inr 3, snd (Cache_set ''assistant'' ''asst_1'' (3::nat) new_Cache))"
  using getOrFetch_never_clobbers [of "''assistant''"
      "snd (Cache_set ''assistant'' ''asst_1'' (3::nat) new_Cache)" "''asst_1''"
      "\<lparr>item_value = 3, item_emitter = 0\<rparr>" "\<lambda>req. Inr 9"]
  by (simp add: object_types_def Cache_set_insert new_Cache_def put_item_def observe_def)








section \<open>Properties of the poll loop\<close>

lemma wrappedValue_cached:
  assumes "object h \<in> set object_types" and "data s (object h) (ident h) = Some d"
  shows "StatefulObject_wrappedValue h s = Inr (item_value d)"
  using assms by (simp add: StatefulObject_wrappedValue_def Cache_get_def cache_of_recognised)

lemma wrappedValue_absent:
  assumes "object h \<in> set object_types" and "data s (object h) (ident h) = None"
  shows "StatefulObject_wrappedValue h s = Inl NotLoaded"
  using assms by (simp add: StatefulObject_wrappedValue_def Cache_get_def cache_of_recognised)

lemma run_recognised: "''run'' \<in> set object_types"
  by (simp add: object_types_def)



lemma endPolling_idle [simp]: "pollInterval (Run_endPolling r) = None"
  by (simp add: Run_endPolling_def)

lemma endPolling_fields [simp]:
  "self (Run_endPolling r) = self r" "ident (Run_endPolling r) = ident r"
  "object (Run_endPolling r) = object r" "thread (Run_endPolling r) = thread r"
  by (simp_all add: Run_endPolling_def)

lemma emitted_on_append [simp]: "emitted_on c (xs @ ys) = emitted_on c xs @ emitted_on c ys"
  by (induction c xs rule: emitted_on.induct) auto


lemma StatefulObject_fetch_rejected:
  assumes "fetch_request (object h) (Bare (ident h)) = Some req" and "remote req = Inl e"
  shows "StatefulObject_fetch remote h s = (Inl e, observe [Called req] s)"
  using assms by (simp add: StatefulObject_fetch_def Cache_fetch_rejected)

lemma tick_fetched:
  assumes "now - pollStartTime r \<le> POLL_TIMEOUT_MS" and "object r = ''run''"
    and "data s ''run'' (ident r) = Some d"
    and "remote (RetrieveRun (ident (thread r)) (ident r)) = Inr v"
  shows "\<exists>s1 es. Cache_fetch remote ''run'' (Compound (ident (thread r)) (ident r)) s = (Inr v, s1) \<and>
      (\<exists>d'. data s1 ''run'' (ident r) = Some d' \<and> item_value d' = v) \<and>
      trace s1 = trace s @ es \<and>
      outside_cache es = [Called (RetrieveRun (ident (thread r)) (ident r))] \<and>
      Run_tick remote now r s =
        (if status v \<in> set exitStatuses then
           (case StatefulObject_fetch remote (thread r)
                   (observe (status_events (self r) (item_value d) v) s1) of
              (Inl e, s4) \<Rightarrow> (Inl e, Run_endPolling r, s4)
            | (Inr u, s4) \<Rightarrow>
                (Inr (), Run_endPolling r,
                 observe [Emit (Handle (self r)) finished [Null, Str (status v)]] s4))
         else (Inr (), r, observe (status_events (self r) (item_value d) v) s1))"
proof -
  obtain r1 s1 where f: "Cache_fetch remote ''run'' (Compound (ident (thread r)) (ident r)) s = (r1, s1)"
    by (cases "Cache_fetch remote ''run'' (Compound (ident (thread r)) (ident r)) s")
  have q: "fetch_request ''run'' (Compound (ident (thread r)) (ident r))
      = Some (RetrieveRun (ident (thread r)) (ident r))"
    by (simp add: fetch_request_def)
  note p = Cache_fetch_props [OF q assms(4) f]
  have w: "StatefulObject_wrappedValue r s = Inr (item_value d)"
    using wrappedValue_cached [of r s d] assms(2,3) by (simp add: run_recognised)
  have "Run_tick remote now r s =
        (if status v \<in> set exitStatuses then
           (case StatefulObject_fetch remote (thread r)
                   (observe (status_events (self r) (item_value d) v) s1) of
              (Inl e, s4) \<Rightarrow> (Inl e, Run_endPolling r, s4)
            | (Inr u, s4) \<Rightarrow>
                (Inr (), Run_endPolling r,
                 observe [Emit (Handle (self r)) finished [Null, Str (status v)]] s4))
         else (Inr (), r, observe (status_events (self r) (item_value d) v) s1))"
    using assms(1) w f p
    by (auto simp: Run_tick_def emit_def observe_def status_events_def Let_def
        split: prod.splits sum.splits)
  with p f show ?thesis
    by (auto simp: stringId_def)
qed

lemma outside_cache_status_events [simp]:
  "outside_cache (status_events a old new) = status_events a old new"
  by (simp add: status_events_def)








text \<open>
  C1 (no exception escapes the callback). The code does not have this property. The
  callback reads \<open>this.wrappedValue\<close> before its \<open>try\<close> block: at a firing within the
  timeout, when the cache has no item for the run (polling was begun on a handle that was
  never loaded), the promise of the callback is rejected with the not-loaded error, the
  state is unchanged, so nothing is emitted, \<open>finished\<close> least of all, and the interval
  stays live. What the claim says would have \<open>finished\<close> emitted with that error and a
  \<open>null\<close> status.
\<close>

theorem tick_not_loaded_escapes:
  assumes "now - pollStartTime r \<le> POLL_TIMEOUT_MS" and "object r = ''run''"
    and "data s ''run'' (ident r) = None"
  shows "Run_tick remote now r s = (Inl NotLoaded, r, s)"
  using assms wrappedValue_absent [of r s]
  by (simp add: Run_tick_def run_recognised)

text \<open>C1's failing input: the example run, polled on a new cache.\<close>

theorem tick_not_loaded_escapes_witness:
  "1750 - pollStartTime example_run \<le> POLL_TIMEOUT_MS \<and>
   Run_tick (example_api 1 ''completed'') 1750 example_run new_Cache
     = (Inl NotLoaded, example_run, new_Cache)"
  using tick_not_loaded_escapes [where now = 1750 and r = example_run and s = new_Cache
      and remote = "example_api 1 ''completed''"]
  by (simp add: example_run_def POLL_TIMEOUT_MS_def new_Cache_def)

text \<open>
  A second path out of the callback: the refetch of the owning thread, after a terminal
  status, is outside the \<open>try\<close> block too. When the API rejects it, the rejection leaves
  the callback; polling has ended by then and \<open>finished\<close> is not emitted.
\<close>

lemma tick_thread_refetch_rejected:
  assumes "now - pollStartTime r \<le> POLL_TIMEOUT_MS" and "object r = ''run''"
    and "object (thread r) = ''thread''"
    and "data s ''run'' (ident r) = Some d"
    and "remote (RetrieveRun (ident (thread r)) (ident r)) = Inr v"
    and "status v \<in> set exitStatuses"
    and "remote (RetrieveThread (ident (thread r))) = Inl e"
  shows "\<exists>s' es. Run_tick remote now r s = (Inl e, Run_endPolling r, s') \<and>
      trace s' = trace s @ es \<and>
      outside_cache es = Called (RetrieveRun (ident (thread r)) (ident r))
                         # status_events (self r) (item_value d) v
                         @ [Called (RetrieveThread (ident (thread r)))]"
proof -
  from tick_fetched [where remote = remote, OF assms(1,2,4,5)] obtain s1 es where
    tr: "trace s1 = trace s @ es"
    and es: "outside_cache es = [Called (RetrieveRun (ident (thread r)) (ident r))]"
    and tick: "Run_tick remote now r s =
      (case StatefulObject_fetch remote (thread r)
              (observe (status_events (self r) (item_value d) v) s1) of
         (Inl e, s4) \<Rightarrow> (Inl e, Run_endPolling r, s4)
       | (Inr u, s4) \<Rightarrow>
           (Inr (), Run_endPolling r,
            observe [Emit (Handle (self r)) finished [Null, Str (status v)]] s4))"
    using assms(6) by auto
  let ?s3 = "observe (status_events (self r) (item_value d) v) s1"
  have q: "fetch_request (object (thread r)) (Bare (ident (thread r)))
      = Some (RetrieveThread (ident (thread r)))"
    using assms(3) by (simp add: fetch_request_def)
  let ?s' = "observe [Called (RetrieveThread (ident (thread r)))] ?s3"
  have "Run_tick remote now r s = (Inl e, Run_endPolling r, ?s')"
    using tick StatefulObject_fetch_rejected [where remote = remote and s = ?s3, OF q assms(7)] by simp
  moreover have "trace ?s' = trace s @ (es @ status_events (self r) (item_value d) v
      @ [Called (RetrieveThread (ident (thread r)))])"
    by (simp add: observe_def tr)
  moreover have "outside_cache (es @ status_events (self r) (item_value d) v
      @ [Called (RetrieveThread (ident (thread r)))])
      = Called (RetrieveRun (ident (thread r)) (ident r))
        # status_events (self r) (item_value d) v
        @ [Called (RetrieveThread (ident (thread r)))]"
    by (simp add: es)
  ultimately show ?thesis
    by blast
qed

text \<open>
  The path the \<open>try\<close> block covers: when the fetch of the run is rejected, the callback
  returns normally, reports the error with \<open>finished\<close> and a \<open>null\<close> status, and ends polling.
\<close>

lemma tick_fetch_rejected:
  assumes "now - pollStartTime r \<le> POLL_TIMEOUT_MS" and "object r = ''run''"
    and "data s ''run'' (ident r) = Some d"
    and "remote (RetrieveRun (ident (thread r)) (ident r)) = Inl e"
  shows "Run_tick remote now r s =
    (Inr (), Run_endPolling r,
     observe [Called (RetrieveRun (ident (thread r)) (ident r)), ConsoleError e,
              Emit (Handle (self r)) finished [Err e, Null]] s)"
proof -
  have q: "fetch_request ''run'' (Compound (ident (thread r)) (ident r))
      = Some (RetrieveRun (ident (thread r)) (ident r))"
    by (simp add: fetch_request_def)
  have w: "StatefulObject_wrappedValue r s = Inr (item_value d)"
    using wrappedValue_cached [of r s d] assms(2,3) by (simp add: run_recognised)
  show ?thesis
    using assms(1) w Cache_fetch_rejected [where remote = remote, OF q assms(4), of s]
    by (simp add: Run_tick_def emit_def observe_def)
qed



section \<open>Properties of handles\<close>

lemma Cache_fetch_insert:
  assumes "fetch_request k x = Some req" and "remote req = Inr v"
    and "data s k (stringId x) = None"
  shows "Cache_fetch remote k x s =
    (Inr v,
     observe (Called req # fan_out cacheInserted k (stringId x) (Some v) (entry_channel k (stringId x) (fresh s))
                @ fan_out fetched k (stringId x) (Some v) (entry_channel k (stringId x) (fresh s)))
       (put_item k (stringId x) \<lparr>item_value = v, item_emitter = fresh s\<rparr> (s\<lparr>fresh := Suc (fresh s)\<rparr>)))"
proof -
  have k: "k \<in> set object_types"
    using assms(1) by (rule fetch_request_recognised)
  let ?i = "stringId x"
  let ?c = "entry_channel k ?i (fresh s)"
  let ?s2 = "observe (fan_out cacheInserted k ?i (Some v) ?c)
       (put_item k ?i \<lparr>item_value = v, item_emitter = fresh s\<rparr>
          ((observe [Called req] s)\<lparr>fresh := Suc (fresh s)\<rparr>))"
  have d: "data (observe [Called req] s) k ?i = None"
    and fr: "fresh (observe [Called req] s) = fresh s"
    using assms(3) by (simp_all add: observe_def)
  have set: "Cache_set k ?i v (observe [Called req] s) = (Inr (), ?s2)"
    using Cache_set_insert [OF k d, of v] by (simp add: fr)
  have d2: "data ?s2 k ?i = Some \<lparr>item_value = v, item_emitter = fresh s\<rparr>"
    by (simp add: observe_def put_item_def)
  have em: "Cache_emit fetched k ?i (Some v) ?s2 = (Inr (), observe (fan_out fetched k ?i (Some v) ?c) ?s2)"
    using Cache_emit_present [OF k d2] by simp
  have "Cache_fetch remote k x s = (Inr v, observe (fan_out fetched k ?i (Some v) ?c) ?s2)"
    by (simp add: Cache_fetch_called [OF assms(1)] assms(2) set em)
  also have "observe (fan_out fetched k ?i (Some v) ?c) ?s2 =
     observe (Called req # fan_out cacheInserted k ?i (Some v) ?c @ fan_out fetched k ?i (Some v) ?c)
       (put_item k ?i \<lparr>item_value = v, item_emitter = fresh s\<rparr> (s\<lparr>fresh := Suc (fresh s)\<rparr>))"
    by (simp add: observe_def put_item_def)
  finally show ?thesis .
qed

lemma add_listeners_subscribed:
  "add_listeners h c subscribed_keys s =
     (republishers h (fresh s),
      s\<lparr>listeners := (listeners s)(c := listeners s c @ republishers h (fresh s)),
         fresh := fresh s + 6\<rparr>)"
  by (simp add: subscribed_keys_def republishers_def createListener_def addListener_def)

lemma subscribe_cached:
  assumes "object h \<in> set object_types" and "ident h \<noteq> []"
    and "data s (object h) (ident h) = Some d" and "unsubscribe h = None"
  shows "StatefulObject_subscribe h s =
    (Inr (), h\<lparr>unsubscribe := Some (Entry (item_emitter d), republishers h (fresh s))\<rparr>,
     s\<lparr>listeners := (listeners s)(Entry (item_emitter d) :=
          listeners s (Entry (item_emitter d)) @ republishers h (fresh s)),
        fresh := fresh s + 6\<rparr>)"
  using assms
  by (simp add: StatefulObject_subscribe_def Cache_get_def cache_of_recognised call_unsubscribe_def
      Cache_emitter_def recognised_nonempty add_listeners_subscribed)

text \<open>
  C2 (load). The code does not have this property for messages and runs. \<open>load\<close> hands the
  handle's id, a string, to \<open>getOrFetch\<close>, which hands it on to \<open>fetch\<close>; for \<open>message\<close> and
  \<open>run\<close>, \<open>fetch\<close> wants the object \<open>{threadId, id}\<close> and throws the id-type error before
  any call of the remote API. So for every message or run handle whose value is not cached,
  \<open>load\<close> fails with that error whatever the API would answer; nothing is fetched, cached
  or subscribed. The poll loop, which passes \<open>{id, threadId}\<close>, shows the call \<open>load\<close> misses.
\<close>

theorem load_uncached_message_or_run_fails:
  assumes "object h = ''message'' \<or> object h = ''run''" and "data s (object h) (ident h) = None"
  shows "StatefulObject_load remote h s = (Inl (InvalidIdType ''string'' (object h)), h, s)"
  using assms
  by (auto simp: StatefulObject_load_def Cache_getOrFetch_def cache_of_def object_types_def
      Cache_fetch_def)

text \<open>C2's failing input: the message \<open>msg_1\<close>, loaded on a new cache.\<close>

theorem load_uncached_message_or_run_fails_witness:
  "StatefulObject_load (example_api 1 ''ok'') example_message new_Cache
     = (Inl (InvalidIdType ''string'' ''message''), example_message, new_Cache)"
  using load_uncached_message_or_run_fails [where h = example_message and s = new_Cache
      and remote = "example_api 1 ''ok''"]
  by (simp add: example_message_def new_Cache_def)

text \<open>\<open>Run.load\<close> goes through \<open>super.load\<close> and fails the same way, before it begins polling.\<close>

lemma Run_load_uncached_fails:
  assumes "object r = ''run''" and "data s ''run'' (ident r) = None"
  shows "Run_load remote now r s = (Inl (InvalidIdType ''string'' ''run''), r, s)"
  using assms
  by (auto simp: Run_load_def StatefulObject_load_def Cache_getOrFetch_def cache_of_def object_types_def
      Cache_fetch_def)

text \<open>
  For assistants and threads \<open>load\<close> does what C2 says: when the value is not cached and
  the API answers, it is cached, and the handle's six listeners are on the channel of the
  new item.
\<close>

lemma load_assistant_or_thread:
  assumes "object h = ''assistant'' \<or> object h = ''thread''" and "ident h \<noteq> []"
    and "data s (object h) (ident h) = None" and "unsubscribe h = None"
    and "remote (if object h = ''assistant'' then RetrieveAssistant (ident h)
                 else RetrieveThread (ident h)) = Inr v"
    and "StatefulObject_load remote h s = (res, h', s')"
  shows "res = Inr () \<and> Cache_get (object h) (ident h) s' = Inr (Some v) \<and>
    unsubscribe h' = Some (Entry (fresh s), republishers h (Suc (fresh s))) \<and>
    listeners s' (Entry (fresh s)) = listeners s (Entry (fresh s)) @ republishers h (Suc (fresh s))"
proof -
  let ?k = "object h" and ?i = "ident h"
  let ?req = "if ?k = ''assistant'' then RetrieveAssistant ?i else RetrieveThread ?i"
  have k: "?k \<in> set object_types"
    using assms(1) by (auto simp: object_types_def)
  have q: "fetch_request ?k (Bare ?i) = Some ?req"
    using assms(1) by (auto simp: fetch_request_def)
  let ?s1 = "observe (Called ?req # fan_out cacheInserted ?k ?i (Some v) (entry_channel ?k ?i (fresh s))
                @ fan_out fetched ?k ?i (Some v) (entry_channel ?k ?i (fresh s)))
       (put_item ?k ?i \<lparr>item_value = v, item_emitter = fresh s\<rparr> (s\<lparr>fresh := Suc (fresh s)\<rparr>))"
  have f: "Cache_getOrFetch remote ?k ?i s = (Inr v, ?s1)"
    using Cache_fetch_insert [where remote = remote, OF q assms(5)] assms(3) k
    by (simp add: Cache_getOrFetch_def cache_of_recognised stringId_def)
  have d: "data ?s1 ?k ?i = Some \<lparr>item_value = v, item_emitter = fresh s\<rparr>"
    and fr: "fresh ?s1 = Suc (fresh s)" and ls: "listeners ?s1 = listeners s"
    by (simp_all add: observe_def put_item_def)
  have "StatefulObject_load remote h s = StatefulObject_subscribe h ?s1"
    by (simp add: StatefulObject_load_def f)
  with assms(6) subscribe_cached [OF k assms(2) d assms(4)]
  have "res = Inr ()"
    and h': "h' = h\<lparr>unsubscribe := Some (Entry (fresh s), republishers h (Suc (fresh s)))\<rparr>"
    and s': "s' = ?s1\<lparr>listeners := (listeners ?s1)(Entry (fresh s) :=
          listeners ?s1 (Entry (fresh s)) @ republishers h (Suc (fresh s))),
        fresh := fresh ?s1 + 6\<rparr>"
    by (simp_all add: fr)
  moreover have "data s' ?k ?i = Some \<lparr>item_value = v, item_emitter = fresh s\<rparr>"
    by (simp add: s' d)
  moreover have "listeners s' (Entry (fresh s)) = listeners s (Entry (fresh s)) @ republishers h (Suc (fresh s))"
    by (simp add: s' ls)
  ultimately show ?thesis
    using k by (simp add: Cache_get_def cache_of_recognised)
qed


end
